theory Spec2Isabelle
  imports Complex_Main
begin

section \<open>Data model of \<open>ukf.cpp\<close>\<close>

text \<open>
  The filter of \<open>src/src/ukf.cpp\<close> is one C++ class, \<open>UKF\<close>, whose methods mutate the
  member fields. Every \<open>double\<close> is modelled as a \<open>real\<close>: the arithmetic is the exact
  arithmetic that the floating-point code approximates, \<open>M_PI\<close> is \<open>pi\<close>, and the
  conversion to \<open>float\<close> at line 96 is the identity. A \<open>VectorXd\<close> is a list of reals and a
  \<open>MatrixXd\<close> is the list of its rows, so that \<open>M(i, j)\<close> is \<open>M ! i ! j\<close>. The linear
  algebra of the library checks shapes and indices by assertion only; the model pairs
  entries up to the shorter operand and leaves a write outside a shape without effect. The
  properties below stay inside the shapes that the constructor fixes.
\<close>

type_synonym VectorXd = "real list"
type_synonym MatrixXd = "real list list"

text \<open>
  Modelled from the spec: the declarations of the measurement package and of the class
  members (\<open>measurement_package.h\<close>, \<open>ukf.h\<close>) are not under \<open>src/\<close>. The package has
  the three parts of sections 3 and 6, a sensor tag, a raw measurement vector and a
  timestamp in microseconds, under the names that \<open>ukf.cpp\<close> uses; the object has the
  members that \<open>ukf.cpp\<close> reads and writes. The sensor tag is an \<open>enum\<close> object compared
  against the two enumerators by an \<open>if\<close> / \<open>else if\<close> chain without a final \<open>else\<close>
  (lines 95, 103, 122, 125). A value that equals neither enumerator is the third
  constructor.
\<close>

datatype SensorType = LASER | RADAR | UNRECOGNIZED

text \<open>
  A member \<open>name_\<close> of the source is the field \<open>name_'\<close> of the record: a name of the
  logic cannot end in an underscore.
\<close>

record MeasurementPackage =
  timestamp_' :: int
  sensor_type_' :: SensorType
  raw_measurements_' :: VectorXd

record UKF =
  is_initialized_' :: bool
  use_laser_' :: bool
  use_radar_' :: bool
  x_' :: VectorXd
  P_' :: MatrixXd
  Xsig_pred_' :: MatrixXd
  time_us_' :: int
  std_a_' :: real
  std_yawdd_' :: real
  std_laspx_' :: real
  std_laspy_' :: real
  std_radr_' :: real
  std_radphi_' :: real
  std_radrd_' :: real
  weights_' :: VectorXd
  n_x_' :: nat
  n_aug_' :: nat
  lambda_' :: real
  NIS_radar_' :: real
  NIS_laser_' :: real

text \<open>
  The methods return \<open>void\<close>. Their model returns the object after the call, on the right
  of a sum whose left side stands for a fault handed to the caller. The source has no
  \<open>throw\<close>, no status result and no status field, so no equation below produces \<open>Inl\<close>.
\<close>

datatype error = Fault

subsection \<open>Vectors and matrices\<close>

definition vadd :: "VectorXd \<Rightarrow> VectorXd \<Rightarrow> VectorXd" where
  "vadd u v = map2 (+) u v"

definition vsub :: "VectorXd \<Rightarrow> VectorXd \<Rightarrow> VectorXd" where
  "vsub u v = map2 (-) u v"

definition smul :: "real \<Rightarrow> VectorXd \<Rightarrow> VectorXd" where
  "smul c v = map ((*) c) v"

definition dot :: "VectorXd \<Rightarrow> VectorXd \<Rightarrow> real" where
  "dot u v = sum_list (map2 (*) u v)"

definition col :: "MatrixXd \<Rightarrow> nat \<Rightarrow> VectorXd" where
  "col A j = map (\<lambda>r. r ! j) A"

definition cols :: "MatrixXd \<Rightarrow> nat" where
  "cols A = (case A of [] \<Rightarrow> 0 | r # _ \<Rightarrow> length r)"

definition from_cols :: "nat \<Rightarrow> VectorXd list \<Rightarrow> MatrixXd" where
  "from_cols n cs = map (\<lambda>i. map (\<lambda>c. c ! i) cs) [0..<n]"

definition transpose_m :: "MatrixXd \<Rightarrow> MatrixXd" where
  "transpose_m A = map (col A) [0..<cols A]"

definition madd :: "MatrixXd \<Rightarrow> MatrixXd \<Rightarrow> MatrixXd" where
  "madd A B = map2 vadd A B"

definition msub :: "MatrixXd \<Rightarrow> MatrixXd \<Rightarrow> MatrixXd" where
  "msub A B = map2 vsub A B"

definition mvec :: "MatrixXd \<Rightarrow> VectorXd \<Rightarrow> VectorXd" where
  "mvec A v = map (\<lambda>r. dot r v) A"

definition mmul :: "MatrixXd \<Rightarrow> MatrixXd \<Rightarrow> MatrixXd" where
  "mmul A B = map (\<lambda>r. map (\<lambda>j. dot r (col B j)) [0..<cols B]) A"

definition outer :: "VectorXd \<Rightarrow> VectorXd \<Rightarrow> MatrixXd" where
  "outer u v = map (\<lambda>a. map (\<lambda>b. a * b) v) u"

definition fill_v :: "VectorXd \<Rightarrow> real \<Rightarrow> VectorXd" where
  "fill_v v c = map (\<lambda>_. c) v"

definition fill_m :: "MatrixXd \<Rightarrow> real \<Rightarrow> MatrixXd" where
  "fill_m A c = map (\<lambda>r. fill_v r c) A"

definition Constant :: "nat \<Rightarrow> nat \<Rightarrow> real \<Rightarrow> MatrixXd" where
  "Constant r c a = replicate r (replicate c a)"

definition Identity :: "nat \<Rightarrow> nat \<Rightarrow> MatrixXd" where
  "Identity r c = map (\<lambda>i. map (\<lambda>j. if i = j then 1 else 0) [0..<c]) [0..<r]"

definition set_coeff :: "MatrixXd \<Rightarrow> nat \<Rightarrow> nat \<Rightarrow> real \<Rightarrow> MatrixXd" where
  "set_coeff A i j a = A[i := (A ! i)[j := a]]"

subsection \<open>Angle normalization\<close>

text \<open>
  \<open>fmod\<close> of the C library: the remainder of \<open>x / y\<close> with the quotient truncated toward
  zero, so the result has the sign of \<open>x\<close>. The divisor at every call site is \<open>2 * pi\<close>.
\<close>

definition fmod :: "real \<Rightarrow> real \<Rightarrow> real" where
  "fmod x y = x - y * of_int (if 0 \<le> x / y then \<lfloor>x / y\<rfloor> else \<lceil>x / y\<rceil>)"

text \<open>
  The expression under each \<open>//angle normalization\<close> comment (lines 222, 311, 326, 331,
  345): \<open>fmod(a + M_PI, 2.0*M_PI) - M_PI\<close>.
\<close>

definition angle_normalization :: "real \<Rightarrow> real" where
  "angle_normalization a = fmod (a + pi) (2.0 * pi) - pi"

subsection \<open>The constructor\<close>

text \<open>
  \<open>UKF::UKF()\<close>, lines 14 to 79. The storage of \<open>x_\<close>, \<open>P_\<close> and \<open>Xsig_pred_\<close> is
  allocated and not written; its content is taken as the three arguments.
\<close>

definition UKF_ctor :: "VectorXd \<Rightarrow> MatrixXd \<Rightarrow> MatrixXd \<Rightarrow> UKF" where
  "UKF_ctor x0 P0 X0 =
     (let n_x = 5 :: nat;
          n_aug = 7 :: nat;
          lambda = 3.0 - real n_aug
      in \<lparr> is_initialized_' = False,
           use_laser_' = True,
           use_radar_' = True,
           x_' = x0,
           P_' = P0,
           Xsig_pred_' = X0,
           time_us_' = 0,
           std_a_' = 1.0,
           std_yawdd_' = 1.0,
           std_laspx_' = 0.15,
           std_laspy_' = 0.15,
           std_radr_' = 0.3,
           std_radphi_' = 0.03,
           std_radrd_' = 0.3,
           weights_' = (lambda / (lambda + real n_aug))
                      # map (\<lambda>i. 0.5 / (real n_aug + lambda)) [1..<2 * n_aug + 1],
           n_x_' = n_x,
           n_aug_' = n_aug,
           lambda_' = lambda,
           NIS_radar_' = 0.0,
           NIS_laser_' = 0.0 \<rparr>)"

subsection \<open>Library operations\<close>

text \<open>
  \<open>atan2\<close> of the C library on the reals, with the value 0 at the origin.
\<close>

definition atan2 :: "real \<Rightarrow> real \<Rightarrow> real" where
  "atan2 y x =
     (if 0 < x then arctan (y / x)
      else if x < 0 then (if 0 \<le> y then arctan (y / x) + pi else arctan (y / x) - pi)
      else if 0 < y then pi / 2
      else if y < 0 then - (pi / 2)
      else 0)"

datatype ComputationInfo = Success | NumericalIssue

text \<open>
  Modelled from the spec: the matrix library behind \<open>#include "Eigen/Dense"\<close> is not under
  \<open>src/\<close>; \<open>llt()\<close> is the lower-triangular matrix square root of section 4.2, which
  requires a positive definite argument and can fail to factor. The factorization works
  on the lower triangle column by column, stops at the first pivot that is not positive
  and records the outcome in a status beside the matrix it worked on; \<open>matrixL()\<close> reads
  the lower triangle of that matrix whatever the status is.
\<close>

definition llt_column :: "nat \<Rightarrow> MatrixXd \<Rightarrow> MatrixXd option" where
  "llt_column k A =
     (let x = A ! k ! k - sum_list (map (\<lambda>j. A ! k ! j * A ! k ! j) [0..<k])
      in if x \<le> 0 then None
         else Some (map (\<lambda>i. if i < k then A ! i
                              else if i = k then (A ! i)[k := sqrt x]
                              else (A ! i)[k := (A ! i ! k
                                      - sum_list (map (\<lambda>j. A ! i ! j * A ! k ! j) [0..<k])) / sqrt x])
                        [0..<length A]))"

fun llt_columns :: "nat list \<Rightarrow> MatrixXd \<Rightarrow> ComputationInfo \<times> MatrixXd" where
  "llt_columns [] A = (Success, A)"
| "llt_columns (k # ks) A =
     (case llt_column k A of
        None \<Rightarrow> (NumericalIssue, A)
      | Some A' \<Rightarrow> llt_columns ks A')"

definition llt :: "MatrixXd \<Rightarrow> ComputationInfo \<times> MatrixXd" where
  "llt A = llt_columns [0..<length A] A"

definition info :: "ComputationInfo \<times> MatrixXd \<Rightarrow> ComputationInfo" where
  "info F = fst F"

definition matrixL :: "ComputationInfo \<times> MatrixXd \<Rightarrow> MatrixXd" where
  "matrixL F =
     map (\<lambda>i. map (\<lambda>j. if j \<le> i then snd F ! i ! j else 0) [0..<length (snd F)])
         [0..<length (snd F)]"

text \<open>
  The determinant, by expansion along the first row: a square matrix is invertible
  exactly when its determinant is not zero.
\<close>

definition minor_m :: "MatrixXd \<Rightarrow> nat \<Rightarrow> nat \<Rightarrow> MatrixXd" where
  "minor_m A i j = map (\<lambda>r. take j r @ drop (Suc j) r) (take i A @ drop (Suc i) A)"

fun determinant_n :: "nat \<Rightarrow> MatrixXd \<Rightarrow> real" where
  "determinant_n 0 A = 1"
| "determinant_n (Suc n) A =
     sum_list (map (\<lambda>j. (- 1) ^ j * (A ! 0 ! j) * determinant_n n (minor_m A 0 j)) [0..<Suc n])"

definition determinant :: "MatrixXd \<Rightarrow> real" where
  "determinant A = determinant_n (length A) A"

section \<open>The prediction step\<close>

text \<open>Lines 137 to 148: the state followed by the two noise means.\<close>

definition x_aug :: "UKF \<Rightarrow> VectorXd" where
  "x_aug s = x_' s @ [0, 0]"

text \<open>Lines 140 and 151 to 154.\<close>

definition P_aug :: "UKF \<Rightarrow> MatrixXd" where
  "P_aug s =
     map (\<lambda>i. map (\<lambda>j. if i < n_x_' s \<and> j < n_x_' s then P_' s ! i ! j
                        else if i = n_x_' s \<and> j = n_x_' s then std_a_' s * std_a_' s
                        else if i = n_x_' s + 1 \<and> j = n_x_' s + 1 then std_yawdd_' s * std_yawdd_' s
                        else 0)
                   [0..<n_aug_' s])
         [0..<n_aug_' s]"

text \<open>
  Lines 157 to 165: the columns of \<open>Xsig_aug\<close>, in the order of their index. The status
  of the factorization is not read.
\<close>

definition Xsig_aug :: "UKF \<Rightarrow> VectorXd list" where
  "Xsig_aug s =
     (let L = matrixL (llt (P_aug s));
          sqrt_lam_aug = sqrt (lambda_' s + real (n_aug_' s))
      in x_aug s
         # map (\<lambda>i. vadd (x_aug s) (smul sqrt_lam_aug (col L i))) [0..<n_aug_' s]
         @ map (\<lambda>i. vsub (x_aug s) (smul sqrt_lam_aug (col L i))) [0..<n_aug_' s])"

text \<open>Lines 168 to 207: the body of the loop over the sigma points, for one column.\<close>

definition Prediction_column :: "real \<Rightarrow> VectorXd \<Rightarrow> VectorXd" where
  "Prediction_column delta_t c =
     (let p_x = c ! 0;
          p_y = c ! 1;
          v = c ! 2;
          yaw = c ! 3;
          yawd = c ! 4;
          nu_a = c ! 5;
          nu_yawdd = c ! 6;
          (px_p, py_p) =
            (if \<bar>yawd\<bar> > 0.001
             then (p_x + v / yawd * (sin (yaw + yawd * delta_t) - sin yaw),
                   p_y + v / yawd * (cos yaw - cos (yaw + yawd * delta_t)))
             else (p_x + v * delta_t * cos yaw,
                   p_y + v * delta_t * sin yaw));
          v_p = v;
          yaw_p = yaw + yawd * delta_t;
          yawd_p = yawd;
          px_p = px_p + 0.5 * nu_a * delta_t * delta_t * cos yaw;
          py_p = py_p + 0.5 * nu_a * delta_t * delta_t * sin yaw;
          v_p = v_p + nu_a * delta_t;
          yaw_p = yaw_p + 0.5 * nu_yawdd * delta_t * delta_t;
          yawd_p = yawd_p + nu_yawdd * delta_t
      in [px_p, py_p, v_p, yaw_p, yawd_p])"

text \<open>Lines 211 to 214, and 298 to 302: a weighted sum of the columns.\<close>

definition weighted_sum :: "VectorXd \<Rightarrow> MatrixXd \<Rightarrow> nat \<Rightarrow> VectorXd \<Rightarrow> VectorXd" where
  "weighted_sum w X n z = foldl (\<lambda>z i. vadd z (smul (w ! i) (col X i))) z [0..<n]"

text \<open>Lines 217 to 225.\<close>

definition predicted_covariance :: "VectorXd \<Rightarrow> MatrixXd \<Rightarrow> nat \<Rightarrow> VectorXd \<Rightarrow> MatrixXd \<Rightarrow> MatrixXd" where
  "predicted_covariance w X n x P =
     foldl (\<lambda>P i. let x_diff = vsub (col X i) x;
                       x_diff = x_diff[3 := angle_normalization (x_diff ! 3)]
                   in madd P (outer (smul (w ! i) x_diff) x_diff))
           P [0..<n]"

text \<open>\<open>UKF::Prediction\<close>, lines 135 to 226.\<close>

definition Prediction :: "UKF \<Rightarrow> real \<Rightarrow> error + UKF" where
  "Prediction s delta_t =
     (let Xsig_pred = from_cols 5 (map (Prediction_column delta_t) (Xsig_aug s));
          x = weighted_sum (weights_' s) Xsig_pred (2 * n_aug_' s + 1) (fill_v (x_' s) 0.0);
          P = predicted_covariance (weights_' s) Xsig_pred (2 * n_aug_' s + 1) x (fill_m (P_' s) 0.0)
      in Inr (s\<lparr>Xsig_pred_' := Xsig_pred, x_' := x, P_' := P\<rparr>))"

section \<open>The update steps\<close>

text \<open>
  Modelled from the spec: \<open>inverse()\<close> of the matrix library is not under \<open>src/\<close>. It is
  the parameter \<open>inverse_lib\<close> of the update steps and of the entry point, a function from
  matrices to matrices that returns no status: the matrix inverse of sections 4.3 and 4.4
  where the argument is invertible. On a singular argument the library's result has
  entries that are not finite, and no matrix of reals stands for it; nothing is assumed
  about the parameter, so every property below holds for whatever it returns.
\<close>

text \<open>Lines 237 to 253: the innovation covariance of the lidar update.\<close>

definition H_laser :: "UKF \<Rightarrow> MatrixXd" where
  "H_laser s = set_coeff (set_coeff (Constant 2 (n_x_' s) 0.0) 0 0 1.0) 1 1 1.0"

definition R_laser :: "UKF \<Rightarrow> MatrixXd" where
  "R_laser s =
     set_coeff (set_coeff (Constant 2 2 0.0) 0 0 (std_laspx_' s * std_laspx_' s))
               1 1 (std_laspy_' s * std_laspy_' s)"

definition S_laser :: "UKF \<Rightarrow> MatrixXd" where
  "S_laser s =
     (let H = H_laser s;
          HP = mmul H (P_' s);
          Ht = transpose_m H
      in madd (mmul HP Ht) (R_laser s))"

text \<open>\<open>UKF::UpdateLidar\<close>, lines 232 to 261.\<close>

definition UpdateLidar ::
  "(MatrixXd \<Rightarrow> MatrixXd) \<Rightarrow> UKF \<Rightarrow> MeasurementPackage \<Rightarrow> error + UKF" where
  "UpdateLidar inverse_lib s meas_package =
     (if \<not> use_laser_' s then Inr (s\<lparr>NIS_laser_' := 0.0\<rparr>)
      else
        let H = H_laser s;
            HP = mmul H (P_' s);
            z_diff = vsub (raw_measurements_' meas_package) (mvec H (x_' s));
            S = S_laser s;
            Si = inverse_lib S;
            K = mmul (transpose_m HP) Si
        in Inr (s\<lparr>x_' := vadd (x_' s) (mvec K z_diff),
                  P_' := msub (P_' s) (mmul K HP),
                  NIS_laser_' := dot z_diff (mvec Si z_diff)\<rparr>))"

text \<open>Lines 276 to 294: the body of the loop over the predicted sigma points.\<close>

definition UpdateRadar_column :: "VectorXd \<Rightarrow> VectorXd" where
  "UpdateRadar_column c =
     (let p_x = c ! 0;
          p_y = c ! 1;
          v = c ! 2;
          yaw = c ! 3;
          v1 = cos yaw * v;
          v2 = sin yaw * v;
          Zsig0 = sqrt (p_x * p_x + p_y * p_y);
          (Zsig0, Zsig1) =
            (if Zsig0 < 0.001 then (0.001, 0.0) else (Zsig0, atan2 p_y p_x));
          Zsig2 = (p_x * v1 + p_y * v2) / Zsig0
      in [Zsig0, Zsig1, Zsig2])"

definition Zsig :: "UKF \<Rightarrow> MatrixXd" where
  "Zsig s =
     from_cols 3 (map (\<lambda>i. UpdateRadar_column (col (Xsig_pred_' s) i)) [0..<2 * n_aug_' s + 1])"

definition z_pred :: "UKF \<Rightarrow> VectorXd" where
  "z_pred s = weighted_sum (weights_' s) (Zsig s) (2 * n_aug_' s + 1) (replicate 3 0.0)"

text \<open>Lines 305 to 318: the measurement covariance of the radar update.\<close>

definition S_radar :: "UKF \<Rightarrow> MatrixXd" where
  "S_radar s =
     (let S = foldl (\<lambda>S i. let z_diff = vsub (col (Zsig s) i) (z_pred s);
                               z_diff = z_diff[1 := angle_normalization (z_diff ! 1)]
                           in madd S (outer (smul (weights_' s ! i) z_diff) z_diff))
                    (Constant 3 3 0.0) [0..<2 * n_aug_' s + 1];
          S = set_coeff S 0 0 (S ! 0 ! 0 + std_radr_' s * std_radr_' s);
          S = set_coeff S 1 1 (S ! 1 ! 1 + std_radphi_' s * std_radphi_' s);
          S = set_coeff S 2 2 (S ! 2 ! 2 + std_radrd_' s * std_radrd_' s)
      in S)"

text \<open>Lines 320 to 334: the cross covariance.\<close>

definition Tc :: "UKF \<Rightarrow> MatrixXd" where
  "Tc s =
     foldl (\<lambda>T i. let z_diff = vsub (col (Zsig s) i) (z_pred s);
                       z_diff = z_diff[1 := angle_normalization (z_diff ! 1)];
                       x_diff = vsub (col (Xsig_pred_' s) i) (x_' s);
                       x_diff = x_diff[3 := angle_normalization (x_diff ! 3)]
                   in madd T (outer (smul (weights_' s ! i) x_diff) z_diff))
           (Constant (n_x_' s) 3 0.0) [0..<2 * n_aug_' s + 1]"

text \<open>\<open>UKF::UpdateRadar\<close>, lines 267 to 352.\<close>

definition UpdateRadar ::
  "(MatrixXd \<Rightarrow> MatrixXd) \<Rightarrow> UKF \<Rightarrow> MeasurementPackage \<Rightarrow> error + UKF" where
  "UpdateRadar inverse_lib s meas_package =
     (if \<not> use_radar_' s then Inr (s\<lparr>NIS_radar_' := 0.0\<rparr>)
      else
        let S = S_radar s;
            Si = inverse_lib S;
            K = mmul (Tc s) Si;
            z_diff = vsub (raw_measurements_' meas_package) (z_pred s);
            z_diff = z_diff[1 := angle_normalization (z_diff ! 1)]
        in Inr (s\<lparr>x_' := vadd (x_' s) (mvec K z_diff),
                  P_' := msub (P_' s) (mmul (Tc s) (transpose_m K)),
                  NIS_radar_' := dot z_diff (mvec Si z_diff)\<rparr>))"

section \<open>The entry point\<close>

text \<open>Lines 90 to 113: the first call.\<close>

definition initialize :: "UKF \<Rightarrow> MeasurementPackage \<Rightarrow> UKF" where
  "initialize s meas_package =
     (let x = [0.0, 0.0, 3.0, 0.0, 0.1];
          P = Identity (n_x_' s) (n_x_' s);
          P = set_coeff P 2 2 (1.0 * 1.0);
          P = set_coeff P 3 3 (pi * pi / 64.0);
          P = set_coeff P 4 4 (P ! 3 ! 3 / 10.0);
          s = s\<lparr>x_' := x, P_' := P\<rparr>;
          s = (if sensor_type_' meas_package = RADAR then
                 let rho = raw_measurements_' meas_package ! 1;
                     x = (x_' s)[0 := raw_measurements_' meas_package ! 0 * cos rho];
                     x = x[1 := raw_measurements_' meas_package ! 0 * sin rho];
                     P = set_coeff (P_' s) 0 0 (std_radr_' s * std_radr_' s * 0.5);
                     P = set_coeff P 1 1 (std_radr_' s * std_radr_' s * 0.5)
                 in s\<lparr>x_' := x, P_' := P, NIS_radar_' := 0.0\<rparr>
               else if sensor_type_' meas_package = LASER then
                 let x = (x_' s)[0 := raw_measurements_' meas_package ! 0];
                     x = x[1 := raw_measurements_' meas_package ! 1];
                     P = set_coeff (P_' s) 0 0 (std_laspx_' s * std_laspx_' s);
                     P = set_coeff P 1 1 (std_laspy_' s * std_laspy_' s)
                 in s\<lparr>x_' := x, P_' := P, NIS_laser_' := 0.0\<rparr>
               else s)
      in s\<lparr>time_us_' := timestamp_' meas_package, is_initialized_' := True\<rparr>)"

text \<open>\<open>UKF::ProcessMeasurement\<close>, lines 87 to 128.\<close>

definition ProcessMeasurement ::
  "(MatrixXd \<Rightarrow> MatrixXd) \<Rightarrow> UKF \<Rightarrow> MeasurementPackage \<Rightarrow> error + UKF" where
  "ProcessMeasurement inverse_lib s meas_package =
     (if \<not> is_initialized_' s then Inr (initialize s meas_package)
      else
        let dt = real_of_int (timestamp_' meas_package - time_us_' s) / 1000000.0;
            s = s\<lparr>time_us_' := timestamp_' meas_package\<rparr>
        in case Prediction s dt of
             Inl e \<Rightarrow> Inl e
           | Inr s \<Rightarrow>
               if sensor_type_' meas_package = RADAR
               then UpdateRadar inverse_lib s meas_package
               else if sensor_type_' meas_package = LASER
               then UpdateLidar inverse_lib s meas_package
               else Inr s)"

section \<open>Example objects and packages\<close>

text \<open>
  A freshly constructed object whose unwritten storage holds zeros, and the object after a
  first lidar measurement \<open>(2, 3)\<close> at time 0 (lemma \<open>first_call\<close> below).
\<close>

definition ex_fresh :: UKF where
  "ex_fresh = UKF_ctor (replicate 5 0) (Constant 5 5 0) (Constant 5 15 0)"

definition ex_tracking :: UKF where
  "ex_tracking =
     ex_fresh\<lparr>is_initialized_' := True,
              x_' := [2, 3, 3, 0, 0.1],
              P_' := [[0.0225, 0, 0, 0, 0],
                      [0, 0.0225, 0, 0, 0],
                      [0, 0, 1, 0, 0],
                      [0, 0, 0, pi * pi / 64, 0],
                      [0, 0, 0, 0, pi * pi / 640]]\<rparr>"

text \<open>The same object with one sensor switched off.\<close>

definition ex_laser_off :: UKF where
  "ex_laser_off = ex_tracking\<lparr>use_laser_' := False\<rparr>"

definition ex_radar_off :: UKF where
  "ex_radar_off = ex_tracking\<lparr>use_radar_' := False\<rparr>"

text \<open>A tracking object with zero heading rate.\<close>

definition ex_straight :: UKF where
  "ex_straight = ex_tracking\<lparr>x_' := [2, 3, 3, 0, 0]\<rparr>"

text \<open>
  A tracking object whose covariance has negative position variances, and one whose radar
  range noise is zero while all predicted sigma points coincide.
\<close>

definition ex_corrupt :: UKF where
  "ex_corrupt =
     ex_tracking\<lparr>P_' := [[- 0.0225, 0, 0, 0, 0],
                         [0, - 0.0225, 0, 0, 0],
                         [0, 0, 1, 0, 0],
                         [0, 0, 0, 1, 0],
                         [0, 0, 0, 0, 1]]\<rparr>"

definition ex_degenerate :: UKF where
  "ex_degenerate = ex_tracking\<lparr>std_radr_' := 0\<rparr>"

text \<open>
  The function that stands for the library's inverse in the examples: the adjugate
  divided by the determinant, which is the inverse of an invertible matrix. The examples
  on a singular covariance state only that the step returns.
\<close>

definition ex_inverse :: "MatrixXd \<Rightarrow> MatrixXd" where
  "ex_inverse A =
     map (\<lambda>i. map (\<lambda>j. (- 1) ^ (i + j) * determinant (minor_m A j i) / determinant A)
                   [0..<length A])
         [0..<length A]"

definition ex_laser :: "int \<Rightarrow> real \<Rightarrow> real \<Rightarrow> MeasurementPackage" where
  "ex_laser t a b = \<lparr>timestamp_' = t, sensor_type_' = LASER, raw_measurements_' = [a, b]\<rparr>"

definition ex_radar :: "int \<Rightarrow> real \<Rightarrow> real \<Rightarrow> real \<Rightarrow> MeasurementPackage" where
  "ex_radar t a b c = \<lparr>timestamp_' = t, sensor_type_' = RADAR, raw_measurements_' = [a, b, c]\<rparr>"

definition ex_unrecognized :: "int \<Rightarrow> MeasurementPackage" where
  "ex_unrecognized t =
     \<lparr>timestamp_' = t, sensor_type_' = UNRECOGNIZED, raw_measurements_' = [1, 1]\<rparr>"

section \<open>Properties\<close>

lemma fmod_nonneg_range:
  assumes "0 \<le> x" and "0 < y"
  shows "0 \<le> fmod x y \<and> fmod x y < y"
proof -
  have q: "0 \<le> x / y" using assms by simp
  have xy: "y * (x / y) = x" using assms(2) by simp
  have lo: "of_int \<lfloor>x / y\<rfloor> \<le> x / y" by (rule of_int_floor_le)
  have hi: "x / y < of_int \<lfloor>x / y\<rfloor> + 1" by linarith
  have "y * of_int \<lfloor>x / y\<rfloor> \<le> y * (x / y)"
    using lo assms(2) by (intro mult_left_mono) simp_all
  then have a: "y * of_int \<lfloor>x / y\<rfloor> \<le> x" by (simp only: xy)
  have "y * (x / y) < y * (of_int \<lfloor>x / y\<rfloor> + 1)"
    using hi assms(2) by (intro mult_strict_left_mono) simp_all
  then have b: "x < y * of_int \<lfloor>x / y\<rfloor> + y" by (simp only: xy distrib_left mult_1_right)
  show ?thesis using q a b by (simp add: fmod_def)
qed

lemma fmod_small:
  assumes "0 \<le> x" and "x < y"
  shows "fmod x y = x"
proof -
  have "0 \<le> x / y" and "x / y < 1" using assms by simp_all
  then have "\<lfloor>x / y\<rfloor> = 0" by (simp add: floor_eq_iff)
  then show ?thesis using \<open>0 \<le> x / y\<close> by (simp add: fmod_def)
qed

lemma angle_normalization_pi: "angle_normalization pi = - pi"
  by (simp add: angle_normalization_def fmod_def)

text \<open>
  Below \<open>- pi\<close> the remainder keeps the sign of its negative argument, and the result
  stays below \<open>- pi\<close>.
\<close>

lemma angle_normalization_below: "angle_normalization (- 2 * pi) = - 2 * pi"
proof -
  have "\<lceil>- (1 / 2) :: real\<rceil> = 0" by (simp add: ceiling_eq_iff)
  then show ?thesis by (simp add: angle_normalization_def fmod_def)
qed

subsection \<open>Angle normalization\<close>

text \<open>
  Claim C5, as the code has it. For every angle \<open>a\<close> with \<open>- pi \<le> a\<close> the normalized
  angle lies in the half-open interval from \<open>- pi\<close> (included) to \<open>pi\<close> (excluded), and an
  angle that already lies in that interval is returned unchanged.
\<close>

theorem angle_normalization_range:
  assumes "- pi \<le> a"
  shows "- pi \<le> angle_normalization a \<and> angle_normalization a < pi
         \<and> (a < pi \<longrightarrow> angle_normalization a = a)"
proof -
  have y: "0 < 2 * pi" by simp
  have x: "0 \<le> a + pi" using assms by simp
  from fmod_nonneg_range[OF x y]
  have r: "- pi \<le> angle_normalization a \<and> angle_normalization a < pi"
    by (simp add: angle_normalization_def)
  have "angle_normalization a = a" if "a < pi"
  proof -
    have "a + pi < 2 * pi" using that by simp
    from fmod_small[OF x this] show ?thesis by (simp add: angle_normalization_def)
  qed
  with r show ?thesis by blast
qed

theorem angle_normalization_range_witness:
  "- pi \<le> (0::real) \<and> (0::real) < pi \<and> - pi \<le> angle_normalization 0
   \<and> angle_normalization 0 < pi \<and> angle_normalization 0 = 0"
  using angle_normalization_range[of 0] by simp

text \<open>
  Claim C5 as stated fails at the angle \<open>pi\<close>: it lies in the interval from \<open>- pi\<close>
  (excluded) to \<open>pi\<close> (included), and its normalization is \<open>- pi\<close>, which lies outside
  that interval and differs from the input.
\<close>

theorem angle_normalization_counterexample:
  "\<not> (- pi < angle_normalization pi \<and> angle_normalization pi \<le> pi)
   \<and> - pi < pi \<and> pi \<le> pi \<and> angle_normalization pi \<noteq> pi"
  by (simp add: angle_normalization_pi)

subsection \<open>The weights\<close>

text \<open>
  Claim C6. In the object the constructor builds, \<open>lambda_\<close> is \<open>3 - n_aug_\<close>, there are
  \<open>2 * n_aug_ + 1\<close> weights, the first is \<open>lambda_ / (lambda_ + n_aug_)\<close>, every other one
  is \<open>0.5 / (lambda_ + n_aug_)\<close>, and the weights sum to 1.
\<close>

theorem weights_sum_to_one:
  "lambda_' (UKF_ctor x0 P0 X0) = 3 - real (n_aug_' (UKF_ctor x0 P0 X0))
   \<and> length (weights_' (UKF_ctor x0 P0 X0)) = 2 * n_aug_' (UKF_ctor x0 P0 X0) + 1
   \<and> weights_' (UKF_ctor x0 P0 X0) ! 0
       = lambda_' (UKF_ctor x0 P0 X0)
         / (lambda_' (UKF_ctor x0 P0 X0) + real (n_aug_' (UKF_ctor x0 P0 X0)))
   \<and> tl (weights_' (UKF_ctor x0 P0 X0))
       = replicate (2 * n_aug_' (UKF_ctor x0 P0 X0))
           (0.5 / (lambda_' (UKF_ctor x0 P0 X0) + real (n_aug_' (UKF_ctor x0 P0 X0))))
   \<and> sum_list (weights_' (UKF_ctor x0 P0 X0)) = 1"
  by (simp add: UKF_ctor_def map_replicate_const sum_list_replicate)

subsection \<open>Evaluation and shape lemmas\<close>

lemma upt_eval: "[i..<numeral k] = (if i < numeral k then i # [Suc i..<numeral k] else [])"
  by (rule upt_rec)

text \<open>The factorization and the example inverse on small matrices.\<close>

lemma llt_example:
  "llt [[4, 2], [2, 5]] = (Success, [[2, 2], [1, 2]])"
  "matrixL (llt [[4, 2], [2, 5]]) = [[2, 0], [1, 2]]"
  by (simp_all add: llt_def llt_column_def matrixL_def upt_eval Let_def eval_nat_numeral)

lemma ex_inverse_example:
  "ex_inverse [[1, 2], [3, 4]] = [[- 2, 1], [3 / 2, - (1 / 2)]]"
  "ex_inverse [[2, 0, 0], [0, 1, 1], [0, 0, 1]] = [[1 / 2, 0, 0], [0, 1, - 1], [0, 0, 1]]"
  by (simp_all add: ex_inverse_def determinant_def minor_m_def upt_eval eval_nat_numeral)

lemma from_cols_nth: "i < n \<Longrightarrow> from_cols n cs ! i = map (\<lambda>c. c ! i) cs"
  by (simp add: from_cols_def)

lemma length_from_cols: "length (from_cols n cs) = n"
  by (simp add: from_cols_def)

lemma length_weighted_sum:
  "length z \<le> length X \<Longrightarrow> length (weighted_sum w X n z) = length z"
  by (induction n) (simp_all add: weighted_sum_def vadd_def smul_def col_def)

lemma weighted_sum_nth:
  assumes "k < length z" and "length z \<le> length X"
  shows "weighted_sum w X n z ! k = z ! k + sum_list (map (\<lambda>i. w ! i * X ! k ! i) [0..<n])"
proof (induction n)
  case 0
  show ?case by (simp add: weighted_sum_def)
next
  case (Suc n)
  have step: "weighted_sum w X (Suc n) z
                = vadd (weighted_sum w X n z) (smul (w ! n) (col X n))"
    by (simp add: weighted_sum_def)
  have len: "length (weighted_sum w X n z) = length z"
    using assms(2) by (rule length_weighted_sum)
  have "vadd (weighted_sum w X n z) (smul (w ! n) (col X n)) ! k
          = weighted_sum w X n z ! k + w ! n * X ! k ! n"
    using assms len by (simp add: vadd_def smul_def col_def)
  with Suc step show ?case by simp
qed

subsection \<open>The methods return normally\<close>

lemma Prediction_eq:
  "Prediction s dt =
     Inr (s\<lparr>Xsig_pred_' := from_cols 5 (map (Prediction_column dt) (Xsig_aug s)),
            x_' := weighted_sum (weights_' s) (from_cols 5 (map (Prediction_column dt) (Xsig_aug s)))
                     (2 * n_aug_' s + 1) (fill_v (x_' s) 0),
            P_' := predicted_covariance (weights_' s)
                     (from_cols 5 (map (Prediction_column dt) (Xsig_aug s))) (2 * n_aug_' s + 1)
                     (weighted_sum (weights_' s) (from_cols 5 (map (Prediction_column dt) (Xsig_aug s)))
                        (2 * n_aug_' s + 1) (fill_v (x_' s) 0))
                     (fill_m (P_' s) 0)\<rparr>)"
  by (simp add: Prediction_def Let_def)

lemma Prediction_Inr: "Prediction s dt = Inr (projr (Prediction s dt))"
  by (simp add: Prediction_eq)

lemma Prediction_neq_Inl: "Prediction s dt \<noteq> Inl e"
  by (simp add: Prediction_eq)

lemma Prediction_not_isl: "\<not> isl (Prediction s dt)"
  by (simp add: Prediction_eq)

lemma Prediction_frame:
  "\<exists>s'. Prediction s dt = Inr s'
        \<and> NIS_radar_' s' = NIS_radar_' s \<and> NIS_laser_' s' = NIS_laser_' s"
  by (simp add: Prediction_eq)

lemma UpdateLidar_frame:
  "\<exists>s'. UpdateLidar inverse_lib s p = Inr s' \<and> NIS_radar_' s' = NIS_radar_' s"
  by (simp add: UpdateLidar_def Let_def)

lemma UpdateRadar_frame:
  "\<exists>s'. UpdateRadar inverse_lib s p = Inr s' \<and> NIS_laser_' s' = NIS_laser_' s"
  by (simp add: UpdateRadar_def Let_def)

lemma UpdateLidar_not_isl: "\<not> isl (UpdateLidar inverse_lib s p)"
  by (simp add: UpdateLidar_def Let_def)

lemma UpdateRadar_not_isl: "\<not> isl (UpdateRadar inverse_lib s p)"
  by (simp add: UpdateRadar_def Let_def)

lemma ProcessMeasurement_not_isl: "\<not> isl (ProcessMeasurement inverse_lib s p)"
  by (simp add: ProcessMeasurement_def Let_def Prediction_neq_Inl UpdateLidar_not_isl
      UpdateRadar_not_isl split: sum.split)

lemma first_call: "ProcessMeasurement ex_inverse ex_fresh (ex_laser 0 2 3) = Inr ex_tracking"
  by (simp add: ProcessMeasurement_def initialize_def ex_fresh_def ex_tracking_def ex_laser_def
      UKF_ctor_def Identity_def set_coeff_def upt_eval Let_def)

lemma ex_laser_fields:
  "sensor_type_' (ex_laser t a b) = LASER"
  "timestamp_' (ex_laser t a b) = t"
  "raw_measurements_' (ex_laser t a b) = [a, b]"
  by (simp_all add: ex_laser_def)

lemma ex_radar_fields:
  "sensor_type_' (ex_radar t a b c) = RADAR"
  "timestamp_' (ex_radar t a b c) = t"
  "raw_measurements_' (ex_radar t a b c) = [a, b, c]"
  by (simp_all add: ex_radar_def)

lemma ex_unrecognized_fields:
  "sensor_type_' (ex_unrecognized t) = UNRECOGNIZED"
  "timestamp_' (ex_unrecognized t) = t"
  by (simp_all add: ex_unrecognized_def)

lemma ex_tracking_fields:
  "x_' ex_tracking = [2, 3, 3, 0, 0.1]"
  "n_aug_' ex_tracking = 7"
  "n_x_' ex_tracking = 5"
  "is_initialized_' ex_tracking"
  "use_laser_' ex_tracking"
  "use_radar_' ex_tracking"
  "time_us_' ex_tracking = 0"
  "NIS_laser_' ex_tracking = 0"
  "NIS_radar_' ex_tracking = 0"
  by (simp_all add: ex_tracking_def ex_fresh_def UKF_ctor_def)

lemma ex_laser_off_fields:
  "x_' ex_laser_off = [2, 3, 3, 0, 0.1]"
  "n_aug_' ex_laser_off = 7"
  "n_x_' ex_laser_off = 5"
  "lambda_' ex_laser_off = - 4"
  "weights_' ex_laser_off = [- (4 / 3), 1 / 6, 1 / 6, 1 / 6, 1 / 6, 1 / 6, 1 / 6, 1 / 6,
                             1 / 6, 1 / 6, 1 / 6, 1 / 6, 1 / 6, 1 / 6, 1 / 6]"
  "is_initialized_' ex_laser_off"
  "\<not> use_laser_' ex_laser_off"
  "time_us_' ex_laser_off = 0"
  by (simp_all add: ex_laser_off_def ex_tracking_def ex_fresh_def UKF_ctor_def upt_eval)

lemma ex_radar_off_fields:
  "is_initialized_' ex_radar_off"
  "\<not> use_radar_' ex_radar_off"
  "time_us_' ex_radar_off = 0"
  by (simp_all add: ex_radar_off_def ex_tracking_def ex_fresh_def UKF_ctor_def)

subsection \<open>The other sensor's diagnostic\<close>

text \<open>
  Claim C10. After initialization, a call of \<open>ProcessMeasurement\<close> with a lidar package
  returns an object whose radar NIS is the one before the call, and a call with a radar
  package returns an object whose lidar NIS is the one before the call.
\<close>

theorem other_sensor_NIS_unchanged:
  assumes "is_initialized_' s"
  shows "(sensor_type_' p = LASER \<longrightarrow>
            (\<exists>s'. ProcessMeasurement inverse_lib s p = Inr s' \<and> NIS_radar_' s' = NIS_radar_' s))
       \<and> (sensor_type_' p = RADAR \<longrightarrow>
            (\<exists>s'. ProcessMeasurement inverse_lib s p = Inr s' \<and> NIS_laser_' s' = NIS_laser_' s))"
proof -
  let ?dt = "real_of_int (timestamp_' p - time_us_' s) / 1000000"
  obtain s1 where s1: "Prediction (s\<lparr>time_us_' := timestamp_' p\<rparr>) ?dt = Inr s1"
    and r: "NIS_radar_' s1 = NIS_radar_' s" and l: "NIS_laser_' s1 = NIS_laser_' s"
    using Prediction_frame[of "s\<lparr>time_us_' := timestamp_' p\<rparr>" ?dt] by auto
  have L: "\<exists>s'. ProcessMeasurement inverse_lib s p = Inr s' \<and> NIS_radar_' s' = NIS_radar_' s"
    if "sensor_type_' p = LASER"
    using that assms s1 r UpdateLidar_frame[of inverse_lib s1 p]
    by (simp add: ProcessMeasurement_def Let_def)
  have R: "\<exists>s'. ProcessMeasurement inverse_lib s p = Inr s' \<and> NIS_laser_' s' = NIS_laser_' s"
    if "sensor_type_' p = RADAR"
    using that assms s1 l UpdateRadar_frame[of inverse_lib s1 p]
    by (simp add: ProcessMeasurement_def Let_def)
  from L R show ?thesis by blast
qed

theorem other_sensor_NIS_unchanged_witness:
  "is_initialized_' ex_tracking
   \<and> sensor_type_' (ex_laser 1000000 2 3) = LASER
   \<and> (\<exists>s'. ProcessMeasurement ex_inverse ex_tracking (ex_laser 1000000 2 3) = Inr s'
            \<and> NIS_radar_' s' = NIS_radar_' ex_tracking)
   \<and> sensor_type_' (ex_radar 1000000 5 0 0) = RADAR
   \<and> (\<exists>s'. ProcessMeasurement ex_inverse ex_tracking (ex_radar 1000000 5 0 0) = Inr s'
            \<and> NIS_laser_' s' = NIS_laser_' ex_tracking)"
  using other_sensor_NIS_unchanged[of ex_tracking "ex_laser 1000000 2 3" ex_inverse]
        other_sensor_NIS_unchanged[of ex_tracking "ex_radar 1000000 5 0 0" ex_inverse]
  by (simp add: ex_tracking_fields ex_laser_fields ex_radar_fields)

subsection \<open>The first call\<close>

text \<open>
  Claim C7. On an object that is not yet initialized (with the constructor's state
  dimension 5), a radar package with range 5, bearing 0 and range rate 0 sets the position
  to \<open>(5, 0)\<close>, and a lidar package \<open>(2, 3)\<close> sets it to \<open>(2, 3)\<close>. In both cases the call
  returns the object with the default speed, heading and heading rate, the initial
  covariance, the package's timestamp and the initialized flag set; the predicted sigma
  points and the other diagnostic are those before the call, so neither the prediction nor
  an update has run.
\<close>

theorem first_measurement:
  assumes "\<not> is_initialized_' s" and "n_x_' s = 5"
  shows "ProcessMeasurement inverse_lib s
           \<lparr>timestamp_' = t, sensor_type_' = RADAR, raw_measurements_' = [5, 0, 0]\<rparr>
         = Inr (s\<lparr>x_' := [5, 0, 3, 0, 0.1],
                  P_' := [[std_radr_' s * std_radr_' s * 0.5, 0, 0, 0, 0],
                          [0, std_radr_' s * std_radr_' s * 0.5, 0, 0, 0],
                          [0, 0, 1, 0, 0],
                          [0, 0, 0, pi * pi / 64, 0],
                          [0, 0, 0, 0, pi * pi / 64 / 10]],
                  NIS_radar_' := 0,
                  time_us_' := t,
                  is_initialized_' := True\<rparr>)
       \<and> ProcessMeasurement inverse_lib s
           \<lparr>timestamp_' = t, sensor_type_' = LASER, raw_measurements_' = [2, 3]\<rparr>
         = Inr (s\<lparr>x_' := [2, 3, 3, 0, 0.1],
                  P_' := [[std_laspx_' s * std_laspx_' s, 0, 0, 0, 0],
                          [0, std_laspy_' s * std_laspy_' s, 0, 0, 0],
                          [0, 0, 1, 0, 0],
                          [0, 0, 0, pi * pi / 64, 0],
                          [0, 0, 0, 0, pi * pi / 64 / 10]],
                  NIS_laser_' := 0,
                  time_us_' := t,
                  is_initialized_' := True\<rparr>)"
  using assms
  by (simp add: ProcessMeasurement_def initialize_def Identity_def set_coeff_def upt_eval Let_def)

theorem first_measurement_witness:
  "\<not> is_initialized_' ex_fresh \<and> n_x_' ex_fresh = 5
   \<and> ProcessMeasurement ex_inverse ex_fresh
        \<lparr>timestamp_' = 7, sensor_type_' = RADAR, raw_measurements_' = [5, 0, 0]\<rparr>
         = Inr (ex_fresh\<lparr>x_' := [5, 0, 3, 0, 0.1],
                  P_' := [[0.045, 0, 0, 0, 0],
                          [0, 0.045, 0, 0, 0],
                          [0, 0, 1, 0, 0],
                          [0, 0, 0, pi * pi / 64, 0],
                          [0, 0, 0, 0, pi * pi / 640]],
                  NIS_radar_' := 0,
                  time_us_' := 7,
                  is_initialized_' := True\<rparr>)
   \<and> ProcessMeasurement ex_inverse ex_fresh
        \<lparr>timestamp_' = 7, sensor_type_' = LASER, raw_measurements_' = [2, 3]\<rparr>
         = Inr (ex_fresh\<lparr>x_' := [2, 3, 3, 0, 0.1],
                  P_' := [[0.0225, 0, 0, 0, 0],
                          [0, 0.0225, 0, 0, 0],
                          [0, 0, 1, 0, 0],
                          [0, 0, 0, pi * pi / 64, 0],
                          [0, 0, 0, 0, pi * pi / 640]],
                  NIS_laser_' := 0,
                  time_us_' := 7,
                  is_initialized_' := True\<rparr>)"
  using first_measurement[of ex_fresh ex_inverse 7]
  by (simp add: ex_fresh_def UKF_ctor_def)

subsection \<open>The motion model\<close>

lemma length_Xsig_aug: "length (Xsig_aug s) = 2 * n_aug_' s + 1"
  by (simp add: Xsig_aug_def Let_def)

lemma Xsig_aug_0: "Xsig_aug s ! 0 = x_' s @ [0, 0]"
  by (simp add: Xsig_aug_def x_aug_def Let_def)

lemma Prediction_Xsig_pred_nth:
  assumes "i < 2 * n_aug_' s + 1" and "k < 5"
  shows "Xsig_pred_' (projr (Prediction s dt)) ! k ! i = Prediction_column dt (Xsig_aug s ! i) ! k"
  using assms by (simp add: Prediction_eq from_cols_nth length_Xsig_aug)

lemma Prediction_column_position:
  "Prediction_column dt c ! 0 =
     (if \<bar>c ! 4\<bar> > 0.001
      then c ! 0 + c ! 2 / c ! 4 * (sin (c ! 3 + c ! 4 * dt) - sin (c ! 3))
      else c ! 0 + c ! 2 * dt * cos (c ! 3))
     + 0.5 * c ! 5 * dt * dt * cos (c ! 3)"
  "Prediction_column dt c ! 1 =
     (if \<bar>c ! 4\<bar> > 0.001
      then c ! 1 + c ! 2 / c ! 4 * (cos (c ! 3) - cos (c ! 3 + c ! 4 * dt))
      else c ! 1 + c ! 2 * dt * sin (c ! 3))
     + 0.5 * c ! 5 * dt * dt * sin (c ! 3)"
  by (simp_all add: Prediction_column_def Let_def case_prod_beta)

lemma Prediction_column_yaw:
  "Prediction_column dt c ! 3 = c ! 3 + c ! 4 * dt + 0.5 * c ! 6 * dt * dt"
  by (simp add: Prediction_column_def Let_def case_prod_beta)

text \<open>
  Claim C8. Let \<open>c\<close> be column \<open>i\<close> of the augmented sigma points, with position
  \<open>(c ! 0, c ! 1)\<close>, speed \<open>c ! 2\<close>, heading \<open>c ! 3\<close>, heading rate \<open>c ! 4\<close> and acceleration
  noise \<open>c ! 5\<close>. The prediction step returns, and in column \<open>i\<close> of the predicted sigma
  points the position is the straight-line formula plus the noise terms when the
  magnitude of the heading rate is at most 0.001, and the turning formula with the sine
  and cosine of heading plus heading rate times the elapsed time, plus the same noise
  terms, when it exceeds 0.001.
\<close>

theorem motion_model_position:
  assumes "i < 2 * n_aug_' s + 1" and "c = Xsig_aug s ! i"
  shows "\<exists>s'. Prediction s dt = Inr s'
          \<and> (\<bar>c ! 4\<bar> \<le> 0.001 \<longrightarrow>
                Xsig_pred_' s' ! 0 ! i
                  = c ! 0 + c ! 2 * dt * cos (c ! 3) + 0.5 * c ! 5 * dt * dt * cos (c ! 3)
              \<and> Xsig_pred_' s' ! 1 ! i
                  = c ! 1 + c ! 2 * dt * sin (c ! 3) + 0.5 * c ! 5 * dt * dt * sin (c ! 3))
          \<and> (\<bar>c ! 4\<bar> > 0.001 \<longrightarrow>
                Xsig_pred_' s' ! 0 ! i
                  = c ! 0 + c ! 2 / c ! 4 * (sin (c ! 3 + c ! 4 * dt) - sin (c ! 3))
                    + 0.5 * c ! 5 * dt * dt * cos (c ! 3)
              \<and> Xsig_pred_' s' ! 1 ! i
                  = c ! 1 + c ! 2 / c ! 4 * (cos (c ! 3) - cos (c ! 3 + c ! 4 * dt))
                    + 0.5 * c ! 5 * dt * dt * sin (c ! 3))"
proof -
  let ?s' = "projr (Prediction s dt)"
  have x: "Xsig_pred_' ?s' ! 0 ! i = Prediction_column dt c ! 0"
    using Prediction_Xsig_pred_nth[OF assms(1), of 0 dt] assms(2) by simp
  have y: "Xsig_pred_' ?s' ! 1 ! i = Prediction_column dt c ! 1"
    using Prediction_Xsig_pred_nth[OF assms(1), of 1 dt] assms(2) by simp
  have "Prediction s dt = Inr ?s'" by (rule Prediction_Inr)
  moreover have "\<bar>c ! 4\<bar> \<le> 0.001 \<longrightarrow>
                Xsig_pred_' ?s' ! 0 ! i
                  = c ! 0 + c ! 2 * dt * cos (c ! 3) + 0.5 * c ! 5 * dt * dt * cos (c ! 3)
              \<and> Xsig_pred_' ?s' ! 1 ! i
                  = c ! 1 + c ! 2 * dt * sin (c ! 3) + 0.5 * c ! 5 * dt * dt * sin (c ! 3)"
    unfolding x y Prediction_column_position by simp
  moreover have "\<bar>c ! 4\<bar> > 0.001 \<longrightarrow>
                Xsig_pred_' ?s' ! 0 ! i
                  = c ! 0 + c ! 2 / c ! 4 * (sin (c ! 3 + c ! 4 * dt) - sin (c ! 3))
                    + 0.5 * c ! 5 * dt * dt * cos (c ! 3)
              \<and> Xsig_pred_' ?s' ! 1 ! i
                  = c ! 1 + c ! 2 / c ! 4 * (cos (c ! 3) - cos (c ! 3 + c ! 4 * dt))
                    + 0.5 * c ! 5 * dt * dt * sin (c ! 3)"
    unfolding x y Prediction_column_position by simp
  ultimately show ?thesis by blast
qed

theorem motion_model_position_witness:
  "(0::nat) < 2 * n_aug_' ex_straight + 1
   \<and> [2, 3, 3, 0, 0, 0, 0] = Xsig_aug ex_straight ! 0
   \<and> \<bar>[2, 3, 3, 0, 0, 0, 0 :: real] ! 4\<bar> \<le> 0.001
   \<and> (\<exists>s'. Prediction ex_straight 1 = Inr s'
          \<and> Xsig_pred_' s' ! 0 ! 0 = 5 \<and> Xsig_pred_' s' ! 1 ! 0 = 3)
   \<and> (0::nat) < 2 * n_aug_' ex_tracking + 1
   \<and> [2, 3, 3, 0, 0.1, 0, 0] = Xsig_aug ex_tracking ! 0
   \<and> \<bar>[2, 3, 3, 0, 0.1, 0, 0 :: real] ! 4\<bar> > 0.001
   \<and> (\<exists>s'. Prediction ex_tracking 1 = Inr s'
          \<and> Xsig_pred_' s' ! 0 ! 0 = 2 + 3 / 0.1 * (sin (0 + 0.1 * 1) - sin 0)
          \<and> Xsig_pred_' s' ! 1 ! 0 = 3 + 3 / 0.1 * (cos 0 - cos (0 + 0.1 * 1)))"
proof -
  have a: "Xsig_aug ex_straight ! 0 = [2, 3, 3, 0, 0, 0, 0]"
    by (simp add: Xsig_aug_0 ex_straight_def)
  have b: "Xsig_aug ex_tracking ! 0 = [2, 3, 3, 0, 0.1, 0, 0]"
    by (simp add: Xsig_aug_0 ex_tracking_def)
  show ?thesis
    using motion_model_position[of 0 ex_straight "[2, 3, 3, 0, 0, 0, 0]" 1]
          motion_model_position[of 0 ex_tracking "[2, 3, 3, 0, 0.1, 0, 0]" 1]
    by (simp add: a b)
qed

subsection \<open>The radar measurement transform\<close>

lemma UpdateRadar_column_range:
  "0.001 \<le> UpdateRadar_column c ! 0"
  "UpdateRadar_column c ! 2
     = (c ! 0 * (cos (c ! 3) * c ! 2) + c ! 1 * (sin (c ! 3) * c ! 2)) / UpdateRadar_column c ! 0"
  "sqrt (c ! 0 * c ! 0 + c ! 1 * c ! 1) < 0.001 \<Longrightarrow>
     UpdateRadar_column c ! 0 = 0.001 \<and> UpdateRadar_column c ! 1 = 0"
  by (simp_all add: UpdateRadar_column_def Let_def case_prod_beta)

lemma Zsig_nth:
  "i < 2 * n_aug_' s + 1 \<Longrightarrow> k < 3 \<Longrightarrow>
     Zsig s ! k ! i = UpdateRadar_column (col (Xsig_pred_' s) i) ! k"
  by (simp add: Zsig_def from_cols_nth del: upt_Suc)

text \<open>
  Claim C9. Let \<open>c\<close> be column \<open>i\<close> of the predicted sigma points. If the range
  \<open>sqrt (px * px + py * py)\<close> computed from it is below 0.001, then in column \<open>i\<close> of \<open>Zsig\<close>
  the range is 0.001 and the bearing is 0. In every case the range entry is at least
  0.001, and the range rate is the quotient of \<open>px * v1 + py * v2\<close> by that range entry.
\<close>

theorem radar_range_floor:
  assumes "i < 2 * n_aug_' s + 1" and "c = col (Xsig_pred_' s) i"
  shows "(sqrt (c ! 0 * c ! 0 + c ! 1 * c ! 1) < 0.001 \<longrightarrow>
            Zsig s ! 0 ! i = 0.001 \<and> Zsig s ! 1 ! i = 0)
       \<and> 0.001 \<le> Zsig s ! 0 ! i
       \<and> Zsig s ! 2 ! i
           = (c ! 0 * (cos (c ! 3) * c ! 2) + c ! 1 * (sin (c ! 3) * c ! 2)) / Zsig s ! 0 ! i"
  using assms UpdateRadar_column_range[of c]
  by (simp add: Zsig_nth)

theorem radar_range_floor_witness:
  "(0::nat) < 2 * n_aug_' ex_tracking + 1
   \<and> [0, 0, 0, 0, 0] = col (Xsig_pred_' ex_tracking) 0
   \<and> sqrt ([0, 0, 0, 0, 0 :: real] ! 0 * [0, 0, 0, 0, 0] ! 0
            + [0, 0, 0, 0, 0] ! 1 * [0, 0, 0, 0, 0] ! 1) < 0.001
   \<and> Zsig ex_tracking ! 0 ! 0 = 0.001 \<and> Zsig ex_tracking ! 1 ! 0 = 0
   \<and> 0.001 \<le> Zsig ex_tracking ! 0 ! 0
   \<and> Zsig ex_tracking ! 2 ! 0 = 0"
proof -
  have a: "col (Xsig_pred_' ex_tracking) 0 = [0, 0, 0, 0, 0]"
    by (simp add: col_def ex_tracking_def ex_fresh_def UKF_ctor_def Constant_def eval_nat_numeral)
  show ?thesis
    using radar_range_floor[of 0 ex_tracking "[0, 0, 0, 0, 0]"]
    by (simp add: a)
qed

subsection \<open>A disabled sensor\<close>

lemma UpdateLidar_off: "\<not> use_laser_' s \<Longrightarrow> UpdateLidar inverse_lib s p = Inr (s\<lparr>NIS_laser_' := 0\<rparr>)"
  by (simp add: UpdateLidar_def)

lemma UpdateRadar_off: "\<not> use_radar_' s \<Longrightarrow> UpdateRadar inverse_lib s p = Inr (s\<lparr>NIS_radar_' := 0\<rparr>)"
  by (simp add: UpdateRadar_def)

lemma ProcessMeasurement_sensor_off:
  assumes "is_initialized_' s"
  shows "sensor_type_' p = LASER \<Longrightarrow> \<not> use_laser_' s \<Longrightarrow>
           ProcessMeasurement inverse_lib s p
             = Inr ((projr (Prediction (s\<lparr>time_us_' := timestamp_' p\<rparr>)
                      (real_of_int (timestamp_' p - time_us_' s) / 1000000)))\<lparr>NIS_laser_' := 0\<rparr>)"
    and "sensor_type_' p = RADAR \<Longrightarrow> \<not> use_radar_' s \<Longrightarrow>
           ProcessMeasurement inverse_lib s p
             = Inr ((projr (Prediction (s\<lparr>time_us_' := timestamp_' p\<rparr>)
                      (real_of_int (timestamp_' p - time_us_' s) / 1000000)))\<lparr>NIS_radar_' := 0\<rparr>)"
  using assms
  by (simp_all add: ProcessMeasurement_def Let_def Prediction_eq UpdateLidar_def UpdateRadar_def)

text \<open>
  Claim C1, as the code has it. When a sensor's enable flag is off, its update step
  changes nothing but that sensor's NIS, which it sets to 0. A call of
  \<open>ProcessMeasurement\<close> after initialization with a package of that sensor records the
  timestamp and runs the prediction step before the update step: the object it returns is
  the one the prediction step returns for the elapsed time, with that sensor's NIS set
  to 0, so the state vector and the covariance matrix are the predicted ones.
\<close>

theorem disabled_sensor_skips_update:
  "(\<not> use_laser_' s \<longrightarrow> UpdateLidar inverse_lib s p = Inr (s\<lparr>NIS_laser_' := 0\<rparr>))
   \<and> (\<not> use_radar_' s \<longrightarrow> UpdateRadar inverse_lib s p = Inr (s\<lparr>NIS_radar_' := 0\<rparr>))
   \<and> (is_initialized_' s \<and> sensor_type_' p = LASER \<and> \<not> use_laser_' s \<longrightarrow>
        (\<exists>s1. Prediction (s\<lparr>time_us_' := timestamp_' p\<rparr>)
                 (real_of_int (timestamp_' p - time_us_' s) / 1000000) = Inr s1
              \<and> ProcessMeasurement inverse_lib s p = Inr (s1\<lparr>NIS_laser_' := 0\<rparr>)))
   \<and> (is_initialized_' s \<and> sensor_type_' p = RADAR \<and> \<not> use_radar_' s \<longrightarrow>
        (\<exists>s1. Prediction (s\<lparr>time_us_' := timestamp_' p\<rparr>)
                 (real_of_int (timestamp_' p - time_us_' s) / 1000000) = Inr s1
              \<and> ProcessMeasurement inverse_lib s p = Inr (s1\<lparr>NIS_radar_' := 0\<rparr>)))"
  using Prediction_Inr[of "s\<lparr>time_us_' := timestamp_' p\<rparr>"
                          "real_of_int (timestamp_' p - time_us_' s) / 1000000"]
        ProcessMeasurement_sensor_off[of s p inverse_lib]
  by (auto simp add: UpdateLidar_off UpdateRadar_off)

theorem disabled_sensor_skips_update_witness:
  "\<not> use_laser_' ex_laser_off
   \<and> UpdateLidar ex_inverse ex_laser_off (ex_laser 1000000 2 3) = Inr (ex_laser_off\<lparr>NIS_laser_' := 0\<rparr>)
   \<and> is_initialized_' ex_laser_off
   \<and> sensor_type_' (ex_laser 1000000 2 3) = LASER
   \<and> (\<exists>s1. Prediction (ex_laser_off\<lparr>time_us_' := 1000000\<rparr>) 1 = Inr s1
          \<and> ProcessMeasurement ex_inverse ex_laser_off (ex_laser 1000000 2 3) = Inr (s1\<lparr>NIS_laser_' := 0\<rparr>))
   \<and> \<not> use_radar_' ex_radar_off
   \<and> UpdateRadar ex_inverse ex_radar_off (ex_radar 1000000 5 0 0) = Inr (ex_radar_off\<lparr>NIS_radar_' := 0\<rparr>)
   \<and> is_initialized_' ex_radar_off
   \<and> sensor_type_' (ex_radar 1000000 5 0 0) = RADAR
   \<and> (\<exists>s1. Prediction (ex_radar_off\<lparr>time_us_' := 1000000\<rparr>) 1 = Inr s1
          \<and> ProcessMeasurement ex_inverse ex_radar_off (ex_radar 1000000 5 0 0) = Inr (s1\<lparr>NIS_radar_' := 0\<rparr>))"
  using disabled_sensor_skips_update[of ex_laser_off ex_inverse "ex_laser 1000000 2 3"]
        disabled_sensor_skips_update[of ex_radar_off ex_inverse "ex_radar 1000000 5 0 0"]
  by (simp add: ex_laser_off_fields ex_radar_off_fields ex_laser_fields ex_radar_fields)

text \<open>The worked example behind the counterexample: the prediction moves the heading.\<close>

lemma P_aug_time: "P_aug (s\<lparr>time_us_' := t\<rparr>) = P_aug s"
  by (simp add: P_aug_def cong: if_cong)

lemma Xsig_aug_time: "Xsig_aug (s\<lparr>time_us_' := t\<rparr>) = Xsig_aug s"
  by (simp add: Xsig_aug_def x_aug_def P_aug_time)

lemma P_aug_laser_off:
  "P_aug ex_laser_off =
     [[0.0225, 0, 0, 0, 0, 0, 0],
      [0, 0.0225, 0, 0, 0, 0, 0],
      [0, 0, 1, 0, 0, 0, 0],
      [0, 0, 0, pi * pi / 64, 0, 0, 0],
      [0, 0, 0, 0, pi * pi / 640, 0, 0],
      [0, 0, 0, 0, 0, 1, 0],
      [0, 0, 0, 0, 0, 0, 1]]"
  by (simp add: P_aug_def ex_laser_off_def ex_tracking_def ex_fresh_def UKF_ctor_def upt_eval)

lemma pi_sq_pos: "\<not> pi * pi \<le> 0"
proof -
  have "0 < pi * pi" by simp
  then show ?thesis by linarith
qed

lemma matrixL_laser_off:
  "matrixL (llt (P_aug ex_laser_off)) =
     [[sqrt (9 / 400), 0, 0, 0, 0, 0, 0],
      [0, sqrt (9 / 400), 0, 0, 0, 0, 0],
      [0, 0, 1, 0, 0, 0, 0],
      [0, 0, 0, sqrt (pi * pi / 64), 0, 0, 0],
      [0, 0, 0, 0, sqrt (pi * pi / 640), 0, 0],
      [0, 0, 0, 0, 0, 1, 0],
      [0, 0, 0, 0, 0, 0, 1]]"
  by (simp add: P_aug_laser_off llt_def llt_column_def matrixL_def upt_eval Let_def pi_sq_pos)

lemma yaw_row_laser_off:
  "map (\<lambda>c. c ! 3 + c ! 4 * 1 + 0.5 * c ! 6 * 1 * 1) (Xsig_aug ex_laser_off) =
     [1 / 10, 1 / 10, 1 / 10, 1 / 10, sqrt 3 * sqrt (pi * pi / 64) + 1 / 10,
      1 / 10 + sqrt 3 * sqrt (pi * pi / 640), 1 / 10, 1 / 10 + sqrt 3 / 2,
      1 / 10, 1 / 10, 1 / 10, 1 / 10 - sqrt 3 * sqrt (pi * pi / 64),
      1 / 10 - sqrt 3 * sqrt (pi * pi / 640), 1 / 10, 1 / 10 - sqrt 3 / 2]"
  by (simp add: Xsig_aug_def matrixL_laser_off x_aug_def col_def vadd_def vsub_def smul_def
      upt_eval Let_def ex_laser_off_fields)

lemma predicted_yaw_laser_off:
  "x_' (projr (Prediction (ex_laser_off\<lparr>time_us_' := 1000000\<rparr>) 1)) ! 3 = 1 / 10"
proof -
  let ?X = "from_cols 5 (map (Prediction_column 1) (Xsig_aug ex_laser_off))"
  have row: "?X ! 3 = map (\<lambda>c. c ! 3 + c ! 4 * 1 + 0.5 * c ! 6 * 1 * 1) (Xsig_aug ex_laser_off)"
    by (simp add: from_cols_nth Prediction_column_yaw comp_def)
  have "x_' (projr (Prediction (ex_laser_off\<lparr>time_us_' := 1000000\<rparr>) 1))
          = weighted_sum (weights_' ex_laser_off) ?X 15 (fill_v (x_' ex_laser_off) 0)"
    by (simp add: Prediction_eq Xsig_aug_time ex_laser_off_fields)
  also have "\<dots> ! 3 = 0 + sum_list (map (\<lambda>i. weights_' ex_laser_off ! i * ?X ! 3 ! i) [0..<15])"
    by (subst weighted_sum_nth) (simp_all add: fill_v_def ex_laser_off_fields length_from_cols)
  also have "\<dots> = 1 / 10"
    unfolding row yaw_row_laser_off
    by (simp add: ex_laser_off_fields upt_eval field_simps)
  finally show ?thesis .
qed

text \<open>
  Claim C1 as stated fails. An object constructed with the lidar switched off and
  initialized by a first lidar measurement \<open>(2, 3)\<close> at time 0 has heading 0 and heading
  rate 0.1. A second lidar measurement one second later returns normally, and the heading
  in the state vector is then 0.1: the state vector has changed.
\<close>

theorem disabled_sensor_counterexample:
  "ProcessMeasurement ex_inverse (ex_fresh\<lparr>use_laser_' := False\<rparr>) (ex_laser 0 2 3) = Inr ex_laser_off
   \<and> is_initialized_' ex_laser_off
   \<and> \<not> use_laser_' ex_laser_off
   \<and> sensor_type_' (ex_laser 1000000 2 3) = LASER
   \<and> \<not> isl (ProcessMeasurement ex_inverse ex_laser_off (ex_laser 1000000 2 3))
   \<and> x_' (projr (ProcessMeasurement ex_inverse ex_laser_off (ex_laser 1000000 2 3))) ! 3 = 1 / 10
   \<and> x_' ex_laser_off ! 3 = 0"
proof -
  have a: "ProcessMeasurement ex_inverse (ex_fresh\<lparr>use_laser_' := False\<rparr>) (ex_laser 0 2 3) = Inr ex_laser_off"
    by (simp add: ProcessMeasurement_def initialize_def ex_fresh_def ex_tracking_def ex_laser_off_def
        ex_laser_def UKF_ctor_def Identity_def set_coeff_def upt_eval Let_def)
  have b: "ProcessMeasurement ex_inverse ex_laser_off (ex_laser 1000000 2 3)
             = Inr ((projr (Prediction (ex_laser_off\<lparr>time_us_' := 1000000\<rparr>) 1))\<lparr>NIS_laser_' := 0\<rparr>)"
    using ProcessMeasurement_sensor_off(1)[of ex_laser_off "ex_laser 1000000 2 3" ex_inverse]
    by (simp add: ex_laser_fields ex_laser_off_fields)
  show ?thesis
    using a predicted_yaw_laser_off by (simp add: b ex_laser_fields ex_laser_off_fields)
qed

subsection \<open>An unrecognized sensor tag\<close>

text \<open>
  Claim C2, as the code has it. A package whose tag is neither \<open>LASER\<close> nor \<open>RADAR\<close> is
  not rejected: \<open>ProcessMeasurement\<close> returns normally. On the first call (state dimension
  5) the object is initialized with the default state, whose position is \<open>(0, 0)\<close>, and
  the default covariance, and the timestamp is recorded. On a later call the timestamp is
  recorded and the prediction step runs for the elapsed time; no update step runs.
\<close>

theorem unrecognized_sensor_type_accepted:
  assumes "sensor_type_' p \<noteq> LASER" and "sensor_type_' p \<noteq> RADAR"
  shows "\<not> isl (ProcessMeasurement inverse_lib s p)
       \<and> (\<not> is_initialized_' s \<and> n_x_' s = 5 \<longrightarrow>
            ProcessMeasurement inverse_lib s p
              = Inr (s\<lparr>x_' := [0, 0, 3, 0, 0.1],
                       P_' := [[1, 0, 0, 0, 0],
                               [0, 1, 0, 0, 0],
                               [0, 0, 1, 0, 0],
                               [0, 0, 0, pi * pi / 64, 0],
                               [0, 0, 0, 0, pi * pi / 64 / 10]],
                       time_us_' := timestamp_' p,
                       is_initialized_' := True\<rparr>))
       \<and> (is_initialized_' s \<longrightarrow>
            ProcessMeasurement inverse_lib s p
              = Prediction (s\<lparr>time_us_' := timestamp_' p\<rparr>)
                  (real_of_int (timestamp_' p - time_us_' s) / 1000000))"
proof -
  have "ProcessMeasurement inverse_lib s p
          = Prediction (s\<lparr>time_us_' := timestamp_' p\<rparr>)
              (real_of_int (timestamp_' p - time_us_' s) / 1000000)"
    if "is_initialized_' s"
    using that assms by (simp add: ProcessMeasurement_def Let_def Prediction_eq)
  moreover have "ProcessMeasurement inverse_lib s p
              = Inr (s\<lparr>x_' := [0, 0, 3, 0, 0.1],
                       P_' := [[1, 0, 0, 0, 0],
                               [0, 1, 0, 0, 0],
                               [0, 0, 1, 0, 0],
                               [0, 0, 0, pi * pi / 64, 0],
                               [0, 0, 0, 0, pi * pi / 64 / 10]],
                       time_us_' := timestamp_' p,
                       is_initialized_' := True\<rparr>)"
    if "\<not> is_initialized_' s" and "n_x_' s = 5"
    using that assms
    by (simp add: ProcessMeasurement_def initialize_def Identity_def set_coeff_def upt_eval Let_def)
  ultimately show ?thesis using ProcessMeasurement_not_isl[of inverse_lib s p] by blast
qed

theorem unrecognized_sensor_type_accepted_witness:
  "sensor_type_' (ex_unrecognized 1000000) \<noteq> LASER
   \<and> sensor_type_' (ex_unrecognized 1000000) \<noteq> RADAR
   \<and> \<not> is_initialized_' ex_fresh \<and> n_x_' ex_fresh = 5
   \<and> ProcessMeasurement ex_inverse ex_fresh (ex_unrecognized 1000000)
       = Inr (ex_fresh\<lparr>x_' := [0, 0, 3, 0, 0.1],
                       P_' := [[1, 0, 0, 0, 0],
                               [0, 1, 0, 0, 0],
                               [0, 0, 1, 0, 0],
                               [0, 0, 0, pi * pi / 64, 0],
                               [0, 0, 0, 0, pi * pi / 64 / 10]],
                       time_us_' := 1000000,
                       is_initialized_' := True\<rparr>)
   \<and> is_initialized_' ex_tracking
   \<and> ProcessMeasurement ex_inverse ex_tracking (ex_unrecognized 1000000)
       = Prediction (ex_tracking\<lparr>time_us_' := 1000000\<rparr>) 1
   \<and> \<not> isl (ProcessMeasurement ex_inverse ex_tracking (ex_unrecognized 1000000))"
proof -
  have t: "sensor_type_' (ex_unrecognized 1000000) \<noteq> LASER"
          "sensor_type_' (ex_unrecognized 1000000) \<noteq> RADAR"
    by (simp_all add: ex_unrecognized_fields)
  have f: "\<not> is_initialized_' ex_fresh" "n_x_' ex_fresh = 5"
    by (simp_all add: ex_fresh_def UKF_ctor_def)
  have a: "ProcessMeasurement ex_inverse ex_fresh (ex_unrecognized 1000000)
       = Inr (ex_fresh\<lparr>x_' := [0, 0, 3, 0, 0.1],
                       P_' := [[1, 0, 0, 0, 0],
                               [0, 1, 0, 0, 0],
                               [0, 0, 1, 0, 0],
                               [0, 0, 0, pi * pi / 64, 0],
                               [0, 0, 0, 0, pi * pi / 64 / 10]],
                       time_us_' := 1000000,
                       is_initialized_' := True\<rparr>)"
    using unrecognized_sensor_type_accepted[OF t, of ex_inverse ex_fresh] f
    by (simp add: ex_unrecognized_fields)
  note B = unrecognized_sensor_type_accepted[OF t, of ex_inverse ex_tracking]
  from B have c: "\<not> isl (ProcessMeasurement ex_inverse ex_tracking (ex_unrecognized 1000000))"
    by (rule conjunct1)
  from B have "is_initialized_' ex_tracking \<longrightarrow>
            ProcessMeasurement ex_inverse ex_tracking (ex_unrecognized 1000000)
              = Prediction (ex_tracking\<lparr>time_us_' := timestamp_' (ex_unrecognized 1000000)\<rparr>)
                  (real_of_int (timestamp_' (ex_unrecognized 1000000) - time_us_' ex_tracking)
                   / 1000000)"
    by blast
  then have b: "ProcessMeasurement ex_inverse ex_tracking (ex_unrecognized 1000000)
             = Prediction (ex_tracking\<lparr>time_us_' := 1000000\<rparr>) 1"
    by (simp add: ex_unrecognized_fields ex_tracking_fields)
  show ?thesis
    using t f a b c ex_tracking_fields(4) by blast
qed

text \<open>
  Claim C2 as stated fails: the first call on a fresh object with an unrecognized tag
  returns an initialized object with the default position \<open>(0, 0)\<close>, and a later call with
  such a tag returns normally as well. Neither reports an error.
\<close>

theorem unrecognized_sensor_type_counterexample:
  "sensor_type_' (ex_unrecognized 0) \<noteq> LASER
   \<and> sensor_type_' (ex_unrecognized 0) \<noteq> RADAR
   \<and> ProcessMeasurement ex_inverse ex_fresh (ex_unrecognized 0)
       = Inr (ex_fresh\<lparr>x_' := [0, 0, 3, 0, 0.1],
                       P_' := [[1, 0, 0, 0, 0],
                               [0, 1, 0, 0, 0],
                               [0, 0, 1, 0, 0],
                               [0, 0, 0, pi * pi / 64, 0],
                               [0, 0, 0, 0, pi * pi / 640]],
                       time_us_' := 0,
                       is_initialized_' := True\<rparr>)
   \<and> is_initialized_' ex_tracking
   \<and> \<not> isl (ProcessMeasurement ex_inverse ex_tracking (ex_unrecognized 0))"
  by (simp add: ProcessMeasurement_not_isl ex_tracking_fields)
     (simp add: ProcessMeasurement_def initialize_def ex_fresh_def ex_unrecognized_def
        UKF_ctor_def Identity_def set_coeff_def upt_eval Let_def)

subsection \<open>A covariance that does not factor\<close>

lemma info_llt_corrupt: "info (llt (P_aug ex_corrupt)) = NumericalIssue"
  by (simp add: info_def llt_def llt_column_def P_aug_def ex_corrupt_def ex_tracking_def
      ex_fresh_def UKF_ctor_def upt_eval)

text \<open>
  Claim C3, as the code has it. When the factorization of the augmented covariance
  fails, the prediction step does not report it: it returns normally, with the predicted
  sigma points computed from the columns that the lower triangle of the unfinished
  factorization gives, and \<open>ProcessMeasurement\<close> returns normally as well.
\<close>

theorem factorization_failure_not_reported:
  assumes "info (llt (P_aug s)) = NumericalIssue"
  shows "(\<exists>s'. Prediction s dt = Inr s'
            \<and> Xsig_pred_' s' = from_cols 5 (map (Prediction_column dt) (Xsig_aug s)))
       \<and> \<not> isl (ProcessMeasurement inverse_lib s p)"
  by (simp add: Prediction_eq ProcessMeasurement_not_isl)

theorem factorization_failure_not_reported_witness:
  "info (llt (P_aug ex_corrupt)) = NumericalIssue
   \<and> (\<exists>s'. Prediction ex_corrupt 1 = Inr s'
          \<and> Xsig_pred_' s' = from_cols 5 (map (Prediction_column 1) (Xsig_aug ex_corrupt)))
   \<and> \<not> isl (ProcessMeasurement ex_inverse ex_corrupt (ex_laser 1000000 2 3))"
  using factorization_failure_not_reported[OF info_llt_corrupt, of 1 ex_inverse "ex_laser 1000000 2 3"]
  by (simp add: info_llt_corrupt)

text \<open>
  Claim C3 as stated fails: the augmented covariance of the object with negative position
  variances does not factor, and both the prediction step and \<open>ProcessMeasurement\<close> return
  normally on it.
\<close>

theorem factorization_failure_counterexample:
  "info (llt (P_aug ex_corrupt)) = NumericalIssue
   \<and> \<not> isl (Prediction ex_corrupt 1)
   \<and> is_initialized_' ex_corrupt
   \<and> \<not> isl (ProcessMeasurement ex_inverse ex_corrupt (ex_laser 1000000 2 3))"
  by (simp add: info_llt_corrupt Prediction_not_isl ProcessMeasurement_not_isl)
     (simp add: ex_corrupt_def ex_tracking_def)

subsection \<open>A singular innovation covariance\<close>

lemma S_laser_corrupt: "S_laser ex_corrupt = [[0, 0], [0, 0]]"
  by (simp add: S_laser_def H_laser_def R_laser_def ex_corrupt_def ex_tracking_def ex_fresh_def
      UKF_ctor_def Constant_def set_coeff_def mmul_def madd_def vadd_def transpose_m_def col_def
      cols_def dot_def upt_eval Let_def eval_nat_numeral)

lemma determinant_S_laser_corrupt: "determinant (S_laser ex_corrupt) = 0"
  by (simp add: S_laser_corrupt determinant_def eval_nat_numeral)

lemma UpdateRadar_column_zero: "UpdateRadar_column [0, 0, 0, 0, 0] = [0.001, 0, 0]"
  by (simp add: UpdateRadar_column_def Let_def)

lemma ex_degenerate_fields:
  "Xsig_pred_' ex_degenerate = replicate 5 (replicate 15 0)"
  "n_aug_' ex_degenerate = 7"
  "weights_' ex_degenerate = [- (4 / 3), 1 / 6, 1 / 6, 1 / 6, 1 / 6, 1 / 6, 1 / 6, 1 / 6,
                              1 / 6, 1 / 6, 1 / 6, 1 / 6, 1 / 6, 1 / 6, 1 / 6]"
  "std_radr_' ex_degenerate = 0"
  "std_radphi_' ex_degenerate = 0.03"
  "std_radrd_' ex_degenerate = 0.3"
  "use_radar_' ex_degenerate"
  by (simp_all add: ex_degenerate_def ex_tracking_def ex_fresh_def UKF_ctor_def Constant_def
      upt_eval)

lemma Zsig_degenerate:
  "Zsig ex_degenerate = [replicate 15 0.001, replicate 15 0, replicate 15 0]"
  by (simp add: Zsig_def ex_degenerate_fields col_def UpdateRadar_column_zero from_cols_def
      upt_eval eval_nat_numeral)

lemma z_pred_degenerate: "z_pred ex_degenerate = [0.001, 0, 0]"
  by (simp add: z_pred_def Zsig_degenerate ex_degenerate_fields weighted_sum_def col_def vadd_def
      smul_def upt_eval eval_nat_numeral)

lemma angle_normalization_zero: "angle_normalization 0 = 0"
  by (simp add: angle_normalization_def fmod_small)

lemma S_radar_degenerate: "S_radar ex_degenerate = [[0, 0, 0], [0, 0.0009, 0], [0, 0, 0.09]]"
  by (simp add: S_radar_def z_pred_degenerate Zsig_degenerate ex_degenerate_fields col_def vsub_def
      vadd_def madd_def smul_def outer_def angle_normalization_zero Constant_def set_coeff_def
      upt_eval eval_nat_numeral Let_def)

lemma determinant_S_radar_degenerate: "determinant (S_radar ex_degenerate) = 0"
  by (simp add: S_radar_degenerate determinant_def minor_m_def upt_eval eval_nat_numeral)

text \<open>
  Claim C4, as the code has it. When the innovation covariance of an enabled update step
  is singular, the step does not detect it and reports nothing: it returns normally, and
  the state vector, the covariance matrix and the NIS of the object it returns are
  computed, by the formulas of the step, from whatever matrix \<open>inverse()\<close> returned for the
  singular covariance.
\<close>

theorem singular_covariance_not_detected:
  "(use_laser_' s \<and> determinant (S_laser s) = 0 \<longrightarrow>
      UpdateLidar inverse_lib s p
        = Inr (s\<lparr>x_' := vadd (x_' s)
                          (mvec (mmul (transpose_m (mmul (H_laser s) (P_' s)))
                                      (inverse_lib (S_laser s)))
                                (vsub (raw_measurements_' p) (mvec (H_laser s) (x_' s)))),
                 P_' := msub (P_' s)
                          (mmul (mmul (transpose_m (mmul (H_laser s) (P_' s)))
                                      (inverse_lib (S_laser s)))
                                (mmul (H_laser s) (P_' s))),
                 NIS_laser_' :=
                   dot (vsub (raw_measurements_' p) (mvec (H_laser s) (x_' s)))
                       (mvec (inverse_lib (S_laser s))
                             (vsub (raw_measurements_' p) (mvec (H_laser s) (x_' s))))\<rparr>))
   \<and> (use_radar_' s \<and> determinant (S_radar s) = 0
        \<and> z = (vsub (raw_measurements_' p) (z_pred s))
                 [1 := angle_normalization (vsub (raw_measurements_' p) (z_pred s) ! 1)] \<longrightarrow>
      UpdateRadar inverse_lib s p
        = Inr (s\<lparr>x_' := vadd (x_' s) (mvec (mmul (Tc s) (inverse_lib (S_radar s))) z),
                 P_' := msub (P_' s)
                          (mmul (Tc s) (transpose_m (mmul (Tc s) (inverse_lib (S_radar s))))),
                 NIS_radar_' := dot z (mvec (inverse_lib (S_radar s)) z)\<rparr>))"
  by (simp add: UpdateLidar_def UpdateRadar_def S_laser_def Let_def)

theorem singular_covariance_not_detected_witness:
  "use_laser_' ex_corrupt \<and> determinant (S_laser ex_corrupt) = 0
   \<and> \<not> isl (UpdateLidar ex_inverse ex_corrupt (ex_laser 1000000 2 3))
   \<and> use_radar_' ex_degenerate \<and> determinant (S_radar ex_degenerate) = 0
   \<and> \<not> isl (UpdateRadar ex_inverse ex_degenerate (ex_radar 1000000 5 0 0))"
proof -
  have l: "use_laser_' ex_corrupt"
    by (simp add: ex_corrupt_def ex_tracking_def ex_fresh_def UKF_ctor_def)
  have r: "use_radar_' ex_degenerate" by (simp add: ex_degenerate_fields)
  note T = singular_covariance_not_detected
  from T[of ex_corrupt ex_inverse "ex_laser 1000000 2 3"]
  have "\<exists>s'. UpdateLidar ex_inverse ex_corrupt (ex_laser 1000000 2 3) = Inr s'"
    using l determinant_S_laser_corrupt by blast
  moreover
  from T[of ex_degenerate ex_inverse "ex_radar 1000000 5 0 0"
           "(vsub (raw_measurements_' (ex_radar 1000000 5 0 0)) (z_pred ex_degenerate))
              [1 := angle_normalization
                      (vsub (raw_measurements_' (ex_radar 1000000 5 0 0)) (z_pred ex_degenerate) ! 1)]"]
  have "\<exists>s'. UpdateRadar ex_inverse ex_degenerate (ex_radar 1000000 5 0 0) = Inr s'"
    using r determinant_S_radar_degenerate by blast
  ultimately show ?thesis
    using l r determinant_S_laser_corrupt determinant_S_radar_degenerate by auto
qed

text \<open>
  Claim C4 as stated fails: the lidar innovation covariance of the object with negative
  position variances is the zero matrix, which is singular, and the lidar update returns
  normally on it.
\<close>

theorem singular_covariance_counterexample:
  "use_laser_' ex_corrupt
   \<and> S_laser ex_corrupt = [[0, 0], [0, 0]]
   \<and> determinant (S_laser ex_corrupt) = 0
   \<and> \<not> isl (UpdateLidar ex_inverse ex_corrupt (ex_laser 1000000 2 3))"
proof -
  have "use_laser_' ex_corrupt"
    by (simp add: ex_corrupt_def ex_tracking_def ex_fresh_def UKF_ctor_def)
  then show ?thesis
    using S_laser_corrupt determinant_S_laser_corrupt
          UpdateLidar_not_isl[of ex_inverse ex_corrupt "ex_laser 1000000 2 3"]
    by blast
qed

end
